theory Spec2Isabelle
  imports Main
begin

section \<open>The undo/redo history of MyFormComponent\<close>

text \<open>
  A shallow embedding of \<^verbatim>\<open>src/app/components/my-form/my-form.component.ts\<close>.
  The component keeps four fields besides its reactive form: the list of snapshots
  \<^verbatim>\<open>formStateHistory\<close>, the cursor \<^verbatim>\<open>currentHistoryIndex\<close>, the offset
  \<^verbatim>\<open>undoRedoCounter\<close> and the flag \<^verbatim>\<open>isLastRedoAction\<close>. Every method mutates them
  in place; here each method takes the component and returns the updated one.
\<close>

subsection \<open>Data\<close>

text \<open>
  The value of the form, as \<^verbatim>\<open>getRawValue()\<close> returns it: one field per control that
  \<^verbatim>\<open>initializeForm\<close> creates. The three text controls start as \<^verbatim>\<open>null\<close>, hence
  \<open>string option\<close>. (The interface \<^verbatim>\<open>IFormData\<close> also lists \<^verbatim>\<open>email\<close>, for which the
  form has no control.)
\<close>

record IFormData =
  firstName :: "string option"
  lastName :: "string option"
  comment :: "string option"
  age :: int
  agree :: bool
  gender :: bool
  birthday :: string
  country :: string

text \<open>
  A \<^verbatim>\<open>FormGroup\<close> object: its current value, and whether the handler
  \<^verbatim>\<open>() => this.onInputChange()\<close> is subscribed to the \<^verbatim>\<open>valueChanges\<close> of this very
  object. The subscription is made once, in \<^verbatim>\<open>ngOnInit\<close>, on the object that
  \<^verbatim>\<open>this.form\<close> holds at that moment.
\<close>

record FormGroup =
  rawValue :: IFormData
  valueChangesSubscribed :: bool

record MyFormComponent =
  formStateHistory :: "IFormData list"
  currentHistoryIndex :: int
  undoRedoCounter :: int
  isLastRedoAction :: bool
  form :: FormGroup

text \<open>
  What a call of \<^verbatim>\<open>undo()\<close> or \<^verbatim>\<open>redo()\<close> does to the form: it passes a snapshot to
  \<^verbatim>\<open>setValue\<close>, or it calls \<^verbatim>\<open>initializeForm()\<close>, or it passes \<^verbatim>\<open>undefined\<close> to
  \<^verbatim>\<open>setValue\<close> because the index it computed is outside the array.
\<close>

datatype applied = SetValue IFormData | InitializeForm | SetValueUndefined

text \<open>What reaches the component from outside.\<close>

datatype event = UserInput IFormData | OnInputChange | Undo | Redo

subsection \<open>Operations\<close>

text \<open>The values of the controls that \<^verbatim>\<open>initializeForm\<close> creates.\<close>

definition blankForm :: IFormData where
  "blankForm = \<lparr>firstName = None, lastName = None, comment = None, age = 0,
     agree = False, gender = False, birthday = '''', country = ''''\<rparr>"

text \<open>
  \<^verbatim>\<open>initializeForm\<close> assigns a new \<^verbatim>\<open>FormGroup\<close> to \<^verbatim>\<open>this.form\<close>. Nothing is
  subscribed to the new object.
\<close>

definition initializeForm :: "MyFormComponent \<Rightarrow> MyFormComponent" where
  "initializeForm c = c\<lparr>form := \<lparr>rawValue = blankForm, valueChangesSubscribed = False\<rparr>\<rparr>"

text \<open>
  \<^verbatim>\<open>ngOnInit\<close>: initialise the form, then subscribe to its \<^verbatim>\<open>valueChanges\<close>.
\<close>

definition ngOnInit :: "MyFormComponent \<Rightarrow> MyFormComponent" where
  "ngOnInit c =
     (let c1 = initializeForm c
      in c1\<lparr>form := (form c1)\<lparr>valueChangesSubscribed := True\<rparr>\<rparr>)"

text \<open>
  The component after construction and \<^verbatim>\<open>ngOnInit\<close>. The field initialiser gives
  \<^verbatim>\<open>form\<close> an empty group, which \<^verbatim>\<open>ngOnInit\<close> replaces before anything reads it.
\<close>

definition initialState :: MyFormComponent where
  "initialState =
     ngOnInit \<lparr>formStateHistory = [], currentHistoryIndex = - 1, undoRedoCounter = 0,
       isLastRedoAction = False,
       form = \<lparr>rawValue = blankForm, valueChangesSubscribed = False\<rparr>\<rparr>"

text \<open>
  \<^verbatim>\<open>onInputChange\<close>: two \<^verbatim>\<open>if\<close> statements in sequence. \<^verbatim>\<open>push\<close> appends;
  \<^verbatim>\<open>pop\<close> removes the last element and does nothing on an empty array.
\<close>

definition onInputChange :: "MyFormComponent \<Rightarrow> MyFormComponent" where
  "onInputChange c =
     (let currentState = rawValue (form c);
          c1 = (if undoRedoCounter c \<le> 0
                then c\<lparr>formStateHistory := formStateHistory c @ [currentState],
                       currentHistoryIndex := currentHistoryIndex c + 1\<rparr>
                else c)
      in if undoRedoCounter c1 = 0 \<and> isLastRedoAction c1
         then c1\<lparr>isLastRedoAction := False,
                 formStateHistory := butlast (formStateHistory c1),
                 currentHistoryIndex := currentHistoryIndex c1 - 1\<rparr>
         else c1)"

text \<open>
  Reading \<^verbatim>\<open>array[i]\<close>: an index outside \<open>0 .. length - 1\<close> gives \<^verbatim>\<open>undefined\<close>.
\<close>

definition element :: "'a list \<Rightarrow> int \<Rightarrow> 'a option" where
  "element xs i = (if 0 \<le> i \<and> i < int (length xs) then Some (xs ! nat i) else None)"

text \<open>
  A change of the form's value notifies the subscriber of \<^verbatim>\<open>valueChanges\<close>, if this
  form object has one; the handler runs before the caller continues.
\<close>

definition valueChanges :: "MyFormComponent \<Rightarrow> MyFormComponent" where
  "valueChanges c = (if valueChangesSubscribed (form c) then onInputChange c else c)"

text \<open>
  \<^verbatim>\<open>this.form.setValue(v)\<close>: writes \<open>v\<close> into the controls and emits
  \<^verbatim>\<open>valueChanges\<close>, also when \<open>v\<close> equals the value the form already has. With
  \<^verbatim>\<open>undefined\<close> the call throws while checking its argument: no control is changed and
  nothing is emitted.
\<close>

definition setValue :: "IFormData option \<Rightarrow> MyFormComponent \<Rightarrow> applied \<times> MyFormComponent" where
  "setValue v c =
     (case v of
        None \<Rightarrow> (SetValueUndefined, c)
      | Some x \<Rightarrow> (SetValue x, valueChanges (c\<lparr>form := (form c)\<lparr>rawValue := x\<rparr>\<rparr>)))"

definition undo :: "MyFormComponent \<Rightarrow> applied \<times> MyFormComponent" where
  "undo c =
     (let c1 = c\<lparr>undoRedoCounter := undoRedoCounter c + 1\<rparr>
      in if undoRedoCounter c1 \<le> currentHistoryIndex c1
         then setValue (element (formStateHistory c1)
                          (currentHistoryIndex c1 - undoRedoCounter c1)) c1
         else (InitializeForm, initializeForm c1))"

definition redo :: "MyFormComponent \<Rightarrow> applied \<times> MyFormComponent" where
  "redo c =
     (let c1 = c\<lparr>undoRedoCounter := undoRedoCounter c - 1\<rparr>
      in if undoRedoCounter c1 > 0
         then setValue (element (formStateHistory c1)
                          (currentHistoryIndex c1 - undoRedoCounter c1)) c1
         else (let c2 = c1\<lparr>isLastRedoAction := True\<rparr>
               in setValue (element (formStateHistory c2) (currentHistoryIndex c2)) c2))"

subsection \<open>Runs of the component\<close>

text \<open>
  The user changes the form to the value \<open>v\<close>: the controls take the value and the form
  emits \<^verbatim>\<open>valueChanges\<close>.
\<close>

definition userInput :: "IFormData \<Rightarrow> MyFormComponent \<Rightarrow> MyFormComponent" where
  "userInput v c = valueChanges (c\<lparr>form := (form c)\<lparr>rawValue := v\<rparr>\<rparr>)"

fun step :: "event \<Rightarrow> MyFormComponent \<Rightarrow> MyFormComponent" where
  "step (UserInput v) c = userInput v c"
| "step OnInputChange c = onInputChange c"
| "step Undo c = snd (undo c)"
| "step Redo c = snd (redo c)"

definition run :: "event list \<Rightarrow> MyFormComponent \<Rightarrow> MyFormComponent" where
  "run es c = fold step es c"

text \<open>\<open>k\<close> edits of the form, one after the other, on the freshly initialised component.\<close>

definition edits :: "IFormData list \<Rightarrow> MyFormComponent" where
  "edits vs = run (map UserInput vs) initialState"

text \<open>\<open>n\<close> consecutive calls of \<^verbatim>\<open>undo()\<close>.\<close>

fun undoTimes :: "nat \<Rightarrow> MyFormComponent \<Rightarrow> MyFormComponent" where
  "undoTimes 0 c = c"
| "undoTimes (Suc n) c = snd (undo (undoTimes n c))"

text \<open>
  A run in which \<^verbatim>\<open>undo()\<close> is called only while the offset has not passed the cursor.
\<close>

fun undoGuarded :: "event list \<Rightarrow> MyFormComponent \<Rightarrow> bool" where
  "undoGuarded [] c = True"
| "undoGuarded (e # es) c =
     ((if e = Undo then undoRedoCounter c \<le> currentHistoryIndex c else True)
      \<and> undoGuarded es (step e c))"

section \<open>Auxiliary facts\<close>

subsection \<open>Runs\<close>

lemma run_Nil [simp]: "run [] c = c"
  by (simp add: run_def)

lemma run_Cons [simp]: "run (e # es) c = run es (step e c)"
  by (simp add: run_def)

lemma run_append: "run (es @ fs) c = run fs (run es c)"
  by (simp add: run_def)

subsection \<open>The cursor is the last index of the history\<close>

text \<open>
  \<^verbatim>\<open>push\<close> and \<^verbatim>\<open>currentHistoryIndex++\<close> come together, and so do \<^verbatim>\<open>pop\<close> and
  \<^verbatim>\<open>currentHistoryIndex--\<close>; the \<^verbatim>\<open>pop\<close> only ever follows a \<^verbatim>\<open>push\<close> of the same
  call. Hence the cursor stays \<open>length - 1\<close>.
\<close>

lemma onInputChange_cursor:
  "currentHistoryIndex c = int (length (formStateHistory c)) - 1 \<Longrightarrow>
   currentHistoryIndex (onInputChange c) = int (length (formStateHistory (onInputChange c))) - 1"
  by (simp add: onInputChange_def Let_def)

lemma valueChanges_cursor:
  "currentHistoryIndex c = int (length (formStateHistory c)) - 1 \<Longrightarrow>
   currentHistoryIndex (valueChanges c) = int (length (formStateHistory (valueChanges c))) - 1"
  by (simp add: valueChanges_def onInputChange_cursor)

lemma setValue_cursor:
  "currentHistoryIndex c = int (length (formStateHistory c)) - 1 \<Longrightarrow>
   currentHistoryIndex (snd (setValue v c))
     = int (length (formStateHistory (snd (setValue v c)))) - 1"
  by (cases v) (simp_all add: setValue_def valueChanges_cursor)

lemma undo_cursor:
  "currentHistoryIndex c = int (length (formStateHistory c)) - 1 \<Longrightarrow>
   currentHistoryIndex (snd (undo c)) = int (length (formStateHistory (snd (undo c)))) - 1"
  by (simp add: undo_def Let_def setValue_cursor initializeForm_def)

lemma redo_cursor:
  "currentHistoryIndex c = int (length (formStateHistory c)) - 1 \<Longrightarrow>
   currentHistoryIndex (snd (redo c)) = int (length (formStateHistory (snd (redo c)))) - 1"
  by (simp add: redo_def Let_def setValue_cursor)

lemma step_cursor:
  "currentHistoryIndex c = int (length (formStateHistory c)) - 1 \<Longrightarrow>
   currentHistoryIndex (step e c) = int (length (formStateHistory (step e c))) - 1"
  by (cases e) (simp_all add: userInput_def valueChanges_cursor onInputChange_cursor
      undo_cursor redo_cursor)

lemma run_cursor:
  "currentHistoryIndex c = int (length (formStateHistory c)) - 1 \<Longrightarrow>
   currentHistoryIndex (run es c) = int (length (formStateHistory (run es c))) - 1"
  by (induction es arbitrary: c) (simp_all add: step_cursor)

lemma initialState_cursor:
  "currentHistoryIndex initialState = int (length (formStateHistory initialState)) - 1"
  by (simp add: initialState_def ngOnInit_def initializeForm_def)

lemma reachable_cursor:
  "currentHistoryIndex (run es initialState)
   = int (length (formStateHistory (run es initialState))) - 1"
  by (rule run_cursor [OF initialState_cursor])

subsection \<open>The offset moves by one; the cursor never moves back\<close>

lemma onInputChange_counter: "undoRedoCounter (onInputChange c) = undoRedoCounter c"
  by (simp add: onInputChange_def Let_def)

lemma onInputChange_index_mono: "currentHistoryIndex c \<le> currentHistoryIndex (onInputChange c)"
  by (simp add: onInputChange_def Let_def)

lemma valueChanges_counter: "undoRedoCounter (valueChanges c) = undoRedoCounter c"
  by (simp add: valueChanges_def onInputChange_counter)

lemma valueChanges_index_mono: "currentHistoryIndex c \<le> currentHistoryIndex (valueChanges c)"
  by (simp add: valueChanges_def onInputChange_index_mono)

lemma setValue_counter: "undoRedoCounter (snd (setValue v c)) = undoRedoCounter c"
  by (cases v) (simp_all add: setValue_def valueChanges_counter)

lemma setValue_index_mono: "currentHistoryIndex c \<le> currentHistoryIndex (snd (setValue v c))"
proof (cases v)
  case None
  then show ?thesis by (simp add: setValue_def)
next
  case (Some x)
  have "currentHistoryIndex (c\<lparr>form := (form c)\<lparr>rawValue := x\<rparr>\<rparr>)
        \<le> currentHistoryIndex (valueChanges (c\<lparr>form := (form c)\<lparr>rawValue := x\<rparr>\<rparr>))"
    by (rule valueChanges_index_mono)
  with Some show ?thesis by (simp add: setValue_def)
qed

lemma undo_counter: "undoRedoCounter (snd (undo c)) = undoRedoCounter c + 1"
  by (simp add: undo_def Let_def setValue_counter initializeForm_def)

lemma undo_index_mono: "currentHistoryIndex c \<le> currentHistoryIndex (snd (undo c))"
proof -
  have "currentHistoryIndex (c\<lparr>undoRedoCounter := undoRedoCounter c + 1\<rparr>)
        \<le> currentHistoryIndex (snd (setValue v (c\<lparr>undoRedoCounter := undoRedoCounter c + 1\<rparr>)))"
    for v
    by (rule setValue_index_mono)
  then show ?thesis
    by (simp add: undo_def Let_def initializeForm_def)
qed

lemma redo_counter: "undoRedoCounter (snd (redo c)) = undoRedoCounter c - 1"
  by (simp add: redo_def Let_def setValue_counter)

lemma redo_index_mono: "currentHistoryIndex c \<le> currentHistoryIndex (snd (redo c))"
proof -
  have a: "currentHistoryIndex (c\<lparr>undoRedoCounter := undoRedoCounter c - 1\<rparr>)
        \<le> currentHistoryIndex (snd (setValue v (c\<lparr>undoRedoCounter := undoRedoCounter c - 1\<rparr>)))"
    for v
    by (rule setValue_index_mono)
  have b: "currentHistoryIndex
             (c\<lparr>undoRedoCounter := undoRedoCounter c - 1, isLastRedoAction := True\<rparr>)
        \<le> currentHistoryIndex (snd (setValue v
             (c\<lparr>undoRedoCounter := undoRedoCounter c - 1, isLastRedoAction := True\<rparr>)))"
    for v
    by (rule setValue_index_mono)
  from a b show ?thesis
    by (simp add: redo_def Let_def)
qed

lemma step_bound:
  assumes "e = Undo \<Longrightarrow> undoRedoCounter c \<le> currentHistoryIndex c"
    and "undoRedoCounter c \<le> currentHistoryIndex c + 1"
  shows "undoRedoCounter (step e c) \<le> currentHistoryIndex (step e c) + 1"
proof (cases e)
  case (UserInput v)
  have "currentHistoryIndex (c\<lparr>form := (form c)\<lparr>rawValue := v\<rparr>\<rparr>)
        \<le> currentHistoryIndex (valueChanges (c\<lparr>form := (form c)\<lparr>rawValue := v\<rparr>\<rparr>))"
    by (rule valueChanges_index_mono)
  with UserInput assms(2) show ?thesis
    by (simp add: userInput_def valueChanges_counter)
next
  case OnInputChange
  with assms(2) onInputChange_index_mono [of c] show ?thesis
    by (simp add: onInputChange_counter)
next
  case Undo
  with assms(1) undo_index_mono [of c] show ?thesis
    by (simp add: undo_counter)
next
  case Redo
  with assms(2) redo_index_mono [of c] show ?thesis
    by (simp add: redo_counter)
qed

lemma run_bound:
  "undoGuarded es c \<Longrightarrow> undoRedoCounter c \<le> currentHistoryIndex c + 1 \<Longrightarrow>
   undoRedoCounter (run es c) \<le> currentHistoryIndex (run es c) + 1"
proof (induction es arbitrary: c)
  case Nil
  then show ?case by simp
next
  case (Cons e es)
  from Cons.prems have g: "e = Undo \<Longrightarrow> undoRedoCounter c \<le> currentHistoryIndex c"
    and rest: "undoGuarded es (step e c)"
    by simp_all
  have "undoRedoCounter (step e c) \<le> currentHistoryIndex (step e c) + 1"
    using g Cons.prems(2) by (rule step_bound)
  with rest show ?case
    by (simp add: Cons.IH)
qed

lemma initialState_bound: "undoRedoCounter initialState \<le> currentHistoryIndex initialState + 1"
  by (simp add: initialState_def ngOnInit_def initializeForm_def)

subsection \<open>The component after \<open>k\<close> edits and \<open>n\<close> undos\<close>

lemma edits_snoc: "edits (vs @ [v]) = userInput v (edits vs)"
  by (simp add: edits_def run_append)

lemma edits_state:
  "edits vs = \<lparr>formStateHistory = vs, currentHistoryIndex = int (length vs) - 1,
     undoRedoCounter = 0, isLastRedoAction = False,
     form = \<lparr>rawValue = (if vs = [] then blankForm else last vs),
              valueChangesSubscribed = True\<rparr>\<rparr>"
proof (induction vs rule: rev_induct)
  case Nil
  show ?case
    by (simp add: edits_def initialState_def ngOnInit_def initializeForm_def)
next
  case (snoc v vs)
  show ?case
    unfolding edits_snoc snoc.IH
    by (simp add: userInput_def valueChanges_def onInputChange_def)
qed

text \<open>
  The undo that passes the cursor replaces the form by a new object, to which nothing is
  subscribed.
\<close>

lemma undoTimes_edits:
  "undoTimes n (edits vs) = \<lparr>formStateHistory = vs, currentHistoryIndex = int (length vs) - 1,
     undoRedoCounter = int n, isLastRedoAction = False,
     form = (if n = 0 then \<lparr>rawValue = (if vs = [] then blankForm else last vs),
                              valueChangesSubscribed = True\<rparr>
             else if n < length vs then \<lparr>rawValue = vs ! (length vs - 1 - n),
                              valueChangesSubscribed = True\<rparr>
             else \<lparr>rawValue = blankForm, valueChangesSubscribed = False\<rparr>)\<rparr>"
proof (induction n)
  case 0
  show ?case by (simp add: edits_state)
next
  case (Suc n)
  show ?case
    unfolding undoTimes.simps Suc.IH
    by (auto simp add: undo_def setValue_def element_def valueChanges_def onInputChange_def
        initializeForm_def nat_diff_distrib)
qed

lemma undone_once:
  assumes "2 \<le> length vs"
  shows "snd (undo (edits vs)) = \<lparr>formStateHistory = vs, currentHistoryIndex = int (length vs) - 1,
     undoRedoCounter = 1, isLastRedoAction = False,
     form = \<lparr>rawValue = vs ! (length vs - 2), valueChangesSubscribed = True\<rparr>\<rparr>"
proof -
  have "snd (undo (edits vs)) = undoTimes (Suc 0) (edits vs)"
    by simp
  also have "\<dots> = \<lparr>formStateHistory = vs, currentHistoryIndex = int (length vs) - 1,
     undoRedoCounter = 1, isLastRedoAction = False,
     form = \<lparr>rawValue = vs ! (length vs - 2), valueChangesSubscribed = True\<rparr>\<rparr>"
    unfolding undoTimes_edits using assms by (simp add: numeral_2_eq_2)
  finally show ?thesis .
qed

lemma redone_once:
  assumes "2 \<le> length vs"
  shows "redo (snd (undo (edits vs))) = (SetValue (last vs),
     \<lparr>formStateHistory = vs, currentHistoryIndex = int (length vs) - 1,
      undoRedoCounter = 0, isLastRedoAction = False,
      form = \<lparr>rawValue = last vs, valueChangesSubscribed = True\<rparr>\<rparr>)"
proof -
  from assms have ne: "vs \<noteq> []" by auto
  have "nat (int (length vs) - 1) = length vs - 1"
    by simp
  with ne have l: "vs ! nat (int (length vs) - 1) = last vs"
    by (simp add: last_conv_nth)
  show ?thesis
    unfolding undone_once [OF assms]
    using ne l by (simp add: redo_def setValue_def element_def valueChanges_def onInputChange_def)
qed

section \<open>Properties\<close>

subsection \<open>Redo up to the latest entry\<close>

text \<open>
  Claim C1. After \<open>k \<ge> 2\<close> edits and one \<^verbatim>\<open>undo()\<close>, two consecutive calls of
  \<^verbatim>\<open>redo()\<close> both apply the snapshot of the latest edit. The first leaves the history as
  it was. The second runs the change handler with the offset at \<open>-1\<close>: the handler
  appends (\<open>undoRedoCounter \<le> 0\<close>) and does not remove (\<open>undoRedoCounter = 0\<close> fails), so
  the history ends with a second copy of the latest snapshot and has length \<open>k + 1\<close>,
  not \<open>k\<close>.
\<close>

theorem second_redo_appends_duplicate:
  assumes "2 \<le> length vs"
  shows "fst (redo (snd (undo (edits vs)))) = SetValue (last vs)
    \<and> formStateHistory (snd (redo (snd (undo (edits vs))))) = vs
    \<and> fst (redo (snd (redo (snd (undo (edits vs)))))) = SetValue (last vs)
    \<and> formStateHistory (snd (redo (snd (redo (snd (undo (edits vs))))))) = vs @ [last vs]"
proof -
  from assms have ne: "vs \<noteq> []" by auto
  have "nat (int (length vs) - 1) = length vs - 1"
    by simp
  with ne have l: "vs ! nat (int (length vs) - 1) = last vs"
    by (simp add: last_conv_nth)
  show ?thesis
    unfolding redone_once [OF assms]
    using ne l by (simp add: redo_def setValue_def element_def valueChanges_def onInputChange_def)
qed

text \<open>Two edits, one undo, two redos: the history has three entries.\<close>

theorem second_redo_appends_duplicate_witness:
  "(2::nat) \<le> length [blankForm\<lparr>age := 1\<rparr>, blankForm\<lparr>age := 2\<rparr>]
   \<and> length (formStateHistory (snd (redo (snd (redo (snd (undo
        (edits [blankForm\<lparr>age := 1\<rparr>, blankForm\<lparr>age := 2\<rparr>])))))))) = 3"
proof -
  have h: "(2::nat) \<le> length [blankForm\<lparr>age := 1\<rparr>, blankForm\<lparr>age := 2\<rparr>]"
    by simp
  show ?thesis
    using h second_redo_appends_duplicate [OF h] by simp
qed

subsection \<open>The offset and the cursor\<close>

text \<open>
  Claim C2, amended. \<^verbatim>\<open>undo()\<close> increments the offset whatever the cursor is, so the
  bound needs the caller's help: in every run from the initial state in which
  \<^verbatim>\<open>undo()\<close> is called only while \<open>undoRedoCounter \<le> currentHistoryIndex\<close>, the
  offset never exceeds \<open>currentHistoryIndex + 1\<close>. While the offset is positive this is
  \<open>0 \<le> undoRedoCounter \<le> currentHistoryIndex + 1\<close>.
\<close>

theorem counter_bounded_when_undo_guarded:
  assumes "undoGuarded es initialState"
  shows "undoRedoCounter (run es initialState) \<le> currentHistoryIndex (run es initialState) + 1"
  using assms initialState_bound by (rule run_bound)

theorem counter_bounded_when_undo_guarded_witness:
  "undoGuarded [UserInput (blankForm\<lparr>age := 1\<rparr>), UserInput (blankForm\<lparr>age := 2\<rparr>), Undo, Undo]
     initialState
   \<and> 0 < undoRedoCounter (run [UserInput (blankForm\<lparr>age := 1\<rparr>),
            UserInput (blankForm\<lparr>age := 2\<rparr>), Undo, Undo] initialState)
   \<and> undoRedoCounter (run [UserInput (blankForm\<lparr>age := 1\<rparr>),
            UserInput (blankForm\<lparr>age := 2\<rparr>), Undo, Undo] initialState)
       \<le> currentHistoryIndex (run [UserInput (blankForm\<lparr>age := 1\<rparr>),
            UserInput (blankForm\<lparr>age := 2\<rparr>), Undo, Undo] initialState) + 1"
proof -
  have g: "undoGuarded [UserInput (blankForm\<lparr>age := 1\<rparr>), UserInput (blankForm\<lparr>age := 2\<rparr>),
             Undo, Undo] initialState"
    by (simp add: initialState_def ngOnInit_def initializeForm_def userInput_def
        valueChanges_def onInputChange_def undo_def setValue_def element_def)
  have p: "0 < undoRedoCounter (run [UserInput (blankForm\<lparr>age := 1\<rparr>),
             UserInput (blankForm\<lparr>age := 2\<rparr>), Undo, Undo] initialState)"
    by (simp add: undo_counter userInput_def valueChanges_counter initialState_def
        ngOnInit_def initializeForm_def)
  show ?thesis
    using g p counter_bounded_when_undo_guarded [OF g] by simp
qed

text \<open>
  As the claim states it, the bound fails: one edit and two undos leave the offset at
  \<open>2\<close> and the cursor at \<open>0\<close>.
\<close>

theorem counter_exceeds_cursor_counterexample:
  "0 < undoRedoCounter (run [UserInput (blankForm\<lparr>age := 1\<rparr>), Undo, Undo] initialState)
   \<and> \<not> undoRedoCounter (run [UserInput (blankForm\<lparr>age := 1\<rparr>), Undo, Undo] initialState)
         \<le> currentHistoryIndex (run [UserInput (blankForm\<lparr>age := 1\<rparr>), Undo, Undo] initialState) + 1"
  by (simp add: initialState_def ngOnInit_def initializeForm_def userInput_def
      valueChanges_def onInputChange_def undo_def setValue_def element_def)

subsection \<open>Reads of the history\<close>

text \<open>
  Claim C3, amended. Neither \<^verbatim>\<open>undo()\<close> nor \<^verbatim>\<open>redo()\<close> checks the index it computes
  against the bounds of the history. In a state reached from the initial state,
  \<^verbatim>\<open>undo()\<close> reads inside the history (or re-initialises the form) exactly when
  \<open>undoRedoCounter \<ge> -1\<close>, and \<^verbatim>\<open>redo()\<close> reads inside the history exactly when the
  history is not empty and \<open>undoRedoCounter \<le> currentHistoryIndex + 1\<close>. In every other
  state the element read is \<^verbatim>\<open>undefined\<close>.
\<close>

theorem reads_within_history:
  assumes "s = run es initialState"
  shows "(fst (undo s) \<noteq> SetValueUndefined \<longleftrightarrow> - 1 \<le> undoRedoCounter s)
    \<and> (fst (redo s) \<noteq> SetValueUndefined \<longleftrightarrow>
         formStateHistory s \<noteq> [] \<and> undoRedoCounter s \<le> currentHistoryIndex s + 1)"
proof -
  have c: "currentHistoryIndex s = int (length (formStateHistory s)) - 1"
    unfolding assms by (rule reachable_cursor)
  have u: "fst (undo s) \<noteq> SetValueUndefined \<longleftrightarrow> - 1 \<le> undoRedoCounter s"
    using c by (auto simp add: undo_def setValue_def element_def Let_def split: if_splits)
  have r: "fst (redo s) \<noteq> SetValueUndefined \<longleftrightarrow>
         formStateHistory s \<noteq> [] \<and> undoRedoCounter s \<le> currentHistoryIndex s + 1"
    using c by (cases "formStateHistory s")
      (auto simp add: redo_def setValue_def element_def Let_def split: if_splits)
  from u r show ?thesis by simp
qed

theorem reads_within_history_witness:
  "fst (undo (run [UserInput (blankForm\<lparr>age := 1\<rparr>), UserInput (blankForm\<lparr>age := 2\<rparr>), Undo]
          initialState)) \<noteq> SetValueUndefined
   \<and> fst (redo (run [UserInput (blankForm\<lparr>age := 1\<rparr>), UserInput (blankForm\<lparr>age := 2\<rparr>), Undo]
          initialState)) \<noteq> SetValueUndefined"
proof -
  have s: "run [UserInput (blankForm\<lparr>age := 1\<rparr>), UserInput (blankForm\<lparr>age := 2\<rparr>), Undo]
             initialState
           = \<lparr>formStateHistory = [blankForm\<lparr>age := 1\<rparr>, blankForm\<lparr>age := 2\<rparr>],
              currentHistoryIndex = 1, undoRedoCounter = 1, isLastRedoAction = False,
              form = \<lparr>rawValue = blankForm\<lparr>age := 1\<rparr>, valueChangesSubscribed = True\<rparr>\<rparr>"
    by (simp add: initialState_def ngOnInit_def initializeForm_def userInput_def
        valueChanges_def onInputChange_def undo_def setValue_def element_def)
  show ?thesis
    using reads_within_history [OF refl, of "[UserInput (blankForm\<lparr>age := 1\<rparr>),
      UserInput (blankForm\<lparr>age := 2\<rparr>), Undo]"]
    unfolding s by simp
qed

text \<open>
  As the claim states it, it fails: \<^verbatim>\<open>redo()\<close> on the initial state reads index
  \<open>-1\<close> of the empty history, and \<^verbatim>\<open>redo()\<close> after one edit and two undos reads index
  \<open>-1\<close> of a history of one entry.
\<close>

theorem redo_reads_outside_history_counterexample:
  "formStateHistory initialState = [] \<and> currentHistoryIndex initialState = - 1
   \<and> fst (redo initialState) = SetValueUndefined
   \<and> fst (redo (run [UserInput (blankForm\<lparr>age := 1\<rparr>), Undo, Undo] initialState))
       = SetValueUndefined"
  by (simp add: initialState_def ngOnInit_def initializeForm_def userInput_def
      valueChanges_def onInputChange_def undo_def redo_def setValue_def element_def)

subsection \<open>Undo walks backward\<close>

text \<open>
  Claim C4, amended. After the edits \<open>vs\<close> (\<open>k = length vs \<ge> 1\<close>, numbered \<open>1 .. k\<close>),
  the \<open>i\<close>-th of consecutive calls of \<^verbatim>\<open>undo()\<close> applies the snapshot of edit \<open>k - i\<close>
  for \<open>1 \<le> i < k\<close>; the \<open>k\<close>-th call applies no recorded snapshot and re-initialises the
  form.
\<close>

theorem undo_walks_backward:
  assumes "1 \<le> i" and "i \<le> length vs"
  shows "fst (undo (undoTimes (i - 1) (edits vs)))
    = (if i < length vs then SetValue (vs ! (length vs - i - 1)) else InitializeForm)"
  unfolding undoTimes_edits using assms
  by (auto simp add: undo_def setValue_def element_def valueChanges_def onInputChange_def
      initializeForm_def nat_diff_distrib)

text \<open>Three edits: the second undo applies the first edit's snapshot.\<close>

theorem undo_walks_backward_witness:
  "(1::nat) \<le> 2
   \<and> (2::nat) \<le> length [blankForm\<lparr>age := 1\<rparr>, blankForm\<lparr>age := 2\<rparr>, blankForm\<lparr>age := 3\<rparr>]
   \<and> fst (undo (undoTimes (2 - 1)
        (edits [blankForm\<lparr>age := 1\<rparr>, blankForm\<lparr>age := 2\<rparr>, blankForm\<lparr>age := 3\<rparr>])))
       = SetValue (blankForm\<lparr>age := 1\<rparr>)"
proof -
  have a: "(1::nat) \<le> 2"
    by simp
  have b: "(2::nat) \<le> length [blankForm\<lparr>age := 1\<rparr>, blankForm\<lparr>age := 2\<rparr>, blankForm\<lparr>age := 3\<rparr>]"
    by simp
  show ?thesis
    using a b undo_walks_backward [OF a b] by simp
qed

text \<open>
  As the claim states it, it fails at \<open>k = 1\<close>, \<open>i = 1\<close>: the only undo applies no
  snapshot of the history.
\<close>

theorem first_edit_undo_counterexample:
  "fst (undo (undoTimes 0 (edits [blankForm\<lparr>age := 1\<rparr>]))) = InitializeForm
   \<and> fst (undo (undoTimes 0 (edits [blankForm\<lparr>age := 1\<rparr>]))) \<noteq> SetValue (blankForm\<lparr>age := 1\<rparr>)"
  by (simp add: edits_state undo_def)

subsection \<open>Undo followed by redo\<close>

text \<open>
  Claim C5, amended. After \<open>k \<ge> 1\<close> edits, \<^verbatim>\<open>undo()\<close> followed by \<^verbatim>\<open>redo()\<close> applies
  the snapshot that the form showed before the undo, which is the latest edit, and the
  history is as long afterwards as it was before.
\<close>

theorem undo_redo_round_trip:
  assumes "vs \<noteq> []"
  shows "fst (redo (snd (undo (edits vs)))) = SetValue (rawValue (form (edits vs)))
    \<and> rawValue (form (edits vs)) = last vs
    \<and> length (formStateHistory (snd (redo (snd (undo (edits vs))))))
        = length (formStateHistory (edits vs))"
proof (cases "2 \<le> length vs")
  case True
  from assms show ?thesis
    unfolding redone_once [OF True] by (simp add: edits_state)
next
  case False
  with assms have "length vs = Suc 0"
    by (cases vs) (auto simp add: not_le less_Suc_eq)
  then obtain v where v: "vs = [v]"
    by (auto simp add: length_Suc_conv)
  show ?thesis
    unfolding v edits_state
    by (simp add: undo_def redo_def setValue_def element_def valueChanges_def
        initializeForm_def)
qed

theorem undo_redo_round_trip_witness:
  "[blankForm\<lparr>age := 1\<rparr>, blankForm\<lparr>age := 2\<rparr>] \<noteq> []
   \<and> fst (redo (snd (undo (edits [blankForm\<lparr>age := 1\<rparr>, blankForm\<lparr>age := 2\<rparr>]))))
       = SetValue (blankForm\<lparr>age := 2\<rparr>)
   \<and> length (formStateHistory (snd (redo (snd (undo
        (edits [blankForm\<lparr>age := 1\<rparr>, blankForm\<lparr>age := 2\<rparr>])))))) = 2"
proof -
  have ne: "[blankForm\<lparr>age := 1\<rparr>, blankForm\<lparr>age := 2\<rparr>] \<noteq> []"
    by simp
  have len: "length (formStateHistory (edits [blankForm\<lparr>age := 1\<rparr>, blankForm\<lparr>age := 2\<rparr>])) = 2"
    by (simp add: edits_state)
  show ?thesis
    using ne len undo_redo_round_trip [OF ne] by simp
qed

text \<open>
  Without any edit the claim fails: \<^verbatim>\<open>redo()\<close> after \<^verbatim>\<open>undo()\<close> reads the empty
  history and applies no snapshot.
\<close>

theorem round_trip_without_edit_counterexample:
  "fst (redo (snd (undo (edits [])))) = SetValueUndefined
   \<and> fst (redo (snd (undo (edits [])))) \<noteq> SetValue (rawValue (form (edits [])))"
  by (simp add: edits_state undo_def redo_def initializeForm_def setValue_def element_def)

subsection \<open>Undo past the earliest entry\<close>

text \<open>
  Claim C6. After \<open>k\<close> edits and \<open>k + 1\<close> consecutive calls of \<^verbatim>\<open>undo()\<close>, the last
  call re-initialises the form: the form then holds the blank record, the value it had
  when the component was initialised.
\<close>

theorem undo_exhaustion_resets:
  "fst (undo (undoTimes (length vs) (edits vs))) = InitializeForm
   \<and> rawValue (form (snd (undo (undoTimes (length vs) (edits vs))))) = blankForm
   \<and> rawValue (form (snd (undo (undoTimes (length vs) (edits vs)))))
       = rawValue (form initialState)"
  unfolding undoTimes_edits
  by (simp add: undo_def initializeForm_def initialState_def ngOnInit_def)

subsection \<open>The change handler\<close>

text \<open>
  Claim C7, amended. In a state whose offset is \<open>0\<close> and whose flag
  \<^verbatim>\<open>isLastRedoAction\<close> is clear, the change handler appends the form's current value to
  the history, which grows by exactly one entry, and advances the cursor by exactly one.
\<close>

theorem onInputChange_appends:
  assumes "undoRedoCounter c = 0" and "\<not> isLastRedoAction c"
  shows "formStateHistory (onInputChange c) = formStateHistory c @ [rawValue (form c)]
    \<and> length (formStateHistory (onInputChange c)) = length (formStateHistory c) + 1
    \<and> currentHistoryIndex (onInputChange c) = currentHistoryIndex c + 1"
  using assms by (simp add: onInputChange_def)

theorem onInputChange_appends_witness:
  "undoRedoCounter (edits [blankForm\<lparr>age := 1\<rparr>]) = 0
   \<and> \<not> isLastRedoAction (edits [blankForm\<lparr>age := 1\<rparr>])
   \<and> formStateHistory (onInputChange (edits [blankForm\<lparr>age := 1\<rparr>]))
       = [blankForm\<lparr>age := 1\<rparr>, blankForm\<lparr>age := 1\<rparr>]
   \<and> currentHistoryIndex (onInputChange (edits [blankForm\<lparr>age := 1\<rparr>])) = 1"
proof -
  have z: "undoRedoCounter (edits [blankForm\<lparr>age := 1\<rparr>]) = 0"
    by (simp add: edits_state)
  have f: "\<not> isLastRedoAction (edits [blankForm\<lparr>age := 1\<rparr>])"
    by (simp add: edits_state)
  have h: "formStateHistory (edits [blankForm\<lparr>age := 1\<rparr>]) = [blankForm\<lparr>age := 1\<rparr>]"
    "rawValue (form (edits [blankForm\<lparr>age := 1\<rparr>])) = blankForm\<lparr>age := 1\<rparr>"
    "currentHistoryIndex (edits [blankForm\<lparr>age := 1\<rparr>]) = 0"
    by (simp_all add: edits_state)
  show ?thesis
    using z f h onInputChange_appends [OF z f] by simp
qed

text \<open>
  With the flag set the claim fails at offset \<open>0\<close>. The state below is the one in which
  \<^verbatim>\<open>redo()\<close> emits \<^verbatim>\<open>valueChanges\<close> after two edits and one undo: the handler appends
  and removes, and neither the history nor the cursor has changed.
\<close>

theorem onInputChange_discards_counterexample:
  "undoRedoCounter
     \<lparr>formStateHistory = [blankForm\<lparr>age := 1\<rparr>, blankForm\<lparr>age := 2\<rparr>],
      currentHistoryIndex = 1, undoRedoCounter = 0, isLastRedoAction = True,
      form = \<lparr>rawValue = blankForm\<lparr>age := 2\<rparr>, valueChangesSubscribed = True\<rparr>\<rparr> = 0
   \<and> formStateHistory (onInputChange
     \<lparr>formStateHistory = [blankForm\<lparr>age := 1\<rparr>, blankForm\<lparr>age := 2\<rparr>],
      currentHistoryIndex = 1, undoRedoCounter = 0, isLastRedoAction = True,
      form = \<lparr>rawValue = blankForm\<lparr>age := 2\<rparr>, valueChangesSubscribed = True\<rparr>\<rparr>)
       = [blankForm\<lparr>age := 1\<rparr>, blankForm\<lparr>age := 2\<rparr>]
   \<and> currentHistoryIndex (onInputChange
     \<lparr>formStateHistory = [blankForm\<lparr>age := 1\<rparr>, blankForm\<lparr>age := 2\<rparr>],
      currentHistoryIndex = 1, undoRedoCounter = 0, isLastRedoAction = True,
      form = \<lparr>rawValue = blankForm\<lparr>age := 2\<rparr>, valueChangesSubscribed = True\<rparr>\<rparr>) = 1
   \<and> snd (redo (snd (undo (edits [blankForm\<lparr>age := 1\<rparr>, blankForm\<lparr>age := 2\<rparr>]))))
       = onInputChange
     \<lparr>formStateHistory = [blankForm\<lparr>age := 1\<rparr>, blankForm\<lparr>age := 2\<rparr>],
      currentHistoryIndex = 1, undoRedoCounter = 0, isLastRedoAction = True,
      form = \<lparr>rawValue = blankForm\<lparr>age := 2\<rparr>, valueChangesSubscribed = True\<rparr>\<rparr>"
  by (simp add: edits_state undo_def redo_def setValue_def element_def valueChanges_def
      onInputChange_def)

text \<open>
  Claim C8. In a state whose offset \<^verbatim>\<open>undoRedoCounter\<close> is positive, the change handler
  changes nothing: the history, the cursor and the flag \<^verbatim>\<open>isLastRedoAction\<close> (and every
  other field) are as before.
\<close>

theorem onInputChange_absorbed:
  "0 < undoRedoCounter c \<Longrightarrow> onInputChange c = c"
  by (simp add: onInputChange_def)

theorem onInputChange_absorbed_witness:
  "0 < undoRedoCounter (snd (undo (edits [blankForm\<lparr>age := 1\<rparr>, blankForm\<lparr>age := 2\<rparr>])))
   \<and> onInputChange (snd (undo (edits [blankForm\<lparr>age := 1\<rparr>, blankForm\<lparr>age := 2\<rparr>])))
       = snd (undo (edits [blankForm\<lparr>age := 1\<rparr>, blankForm\<lparr>age := 2\<rparr>]))"
proof -
  have pos: "0 < undoRedoCounter (snd (undo (edits [blankForm\<lparr>age := 1\<rparr>, blankForm\<lparr>age := 2\<rparr>])))"
    by (simp add: undo_counter edits_state)
  show ?thesis
    using pos onInputChange_absorbed [OF pos] by simp
qed

subsection \<open>The cursor stays inside the history\<close>

text \<open>
  Claim C9. In every state that a sequence of user inputs, calls of the change handler,
  \<^verbatim>\<open>undo()\<close> and \<^verbatim>\<open>redo()\<close> reaches from the initial state (history empty, cursor
  \<open>-1\<close>), \<open>-1 \<le> currentHistoryIndex < length formStateHistory\<close>. The notifications that
  \<^verbatim>\<open>undo()\<close> and \<^verbatim>\<open>redo()\<close> trigger are part of these calls.
\<close>

theorem cursor_within_history:
  "- 1 \<le> currentHistoryIndex (run es initialState)
   \<and> currentHistoryIndex (run es initialState)
       < int (length (formStateHistory (run es initialState)))"
  using reachable_cursor [of es] by simp

subsection \<open>The value that undo resets the form to\<close>

text \<open>
  Claim C10. Whenever \<^verbatim>\<open>undo()\<close> takes its \<^verbatim>\<open>else\<close> branch (the incremented offset
  exceeds the cursor), the form afterwards holds the fixed record
  \<^verbatim>\<open>{firstName: null, lastName: null, comment: null, age: 0, agree: false, gender: false,
  birthday: '', country: ''}\<close>, the value of the freshly initialised form, whatever the
  history contains.
\<close>

theorem undo_exhaustion_value:
  assumes "currentHistoryIndex c < undoRedoCounter c + 1"
  shows "fst (undo c) = InitializeForm
    \<and> rawValue (form (snd (undo c)))
        = \<lparr>firstName = None, lastName = None, comment = None, age = 0, agree = False,
           gender = False, birthday = '''', country = ''''\<rparr>
    \<and> rawValue (form (snd (undo c))) = rawValue (form initialState)"
  using assms
  by (simp add: undo_def initializeForm_def blankForm_def initialState_def ngOnInit_def)

theorem undo_exhaustion_value_witness:
  "currentHistoryIndex (edits [blankForm\<lparr>age := 1\<rparr>])
     < undoRedoCounter (edits [blankForm\<lparr>age := 1\<rparr>]) + 1
   \<and> rawValue (form (snd (undo (edits [blankForm\<lparr>age := 1\<rparr>]))))
       = \<lparr>firstName = None, lastName = None, comment = None, age = 0, agree = False,
          gender = False, birthday = '''', country = ''''\<rparr>"
proof -
  have h: "currentHistoryIndex (edits [blankForm\<lparr>age := 1\<rparr>])
             < undoRedoCounter (edits [blankForm\<lparr>age := 1\<rparr>]) + 1"
    by (simp add: edits_state)
  show ?thesis
    using h undo_exhaustion_value [OF h] by simp
qed

end
